theory Spec2Isabelle
  imports Complex_Main "HOL-Library.Signed_Division"
begin

section \<open>Smooth round rectangles: \<^verbatim>\<open>shell/renderer/electron_smooth_round_rect.cc\<close>\<close>

text \<open>
  The file computes the outline of a rectangle with continuous-curvature corners and
  returns it as a Skia path. The embedding below follows the source function by function.

  \<^item> A C++ \<^verbatim>\<open>float\<close> is modelled by a real number: arithmetic, \<^verbatim>\<open>std::sin\<close>,
    \<^verbatim>\<open>std::cos\<close> and \<^verbatim>\<open>std::tan\<close> are the exact real operations. Rounding, NaN and
    infinities are outside the model; every statement below is about this idealisation.
  \<^item> A C++ \<^verbatim>\<open>int\<close> is modelled by an integer. The operator \<^verbatim>\<open>%\<close> truncates towards
    zero, which is \<open>smod\<close>. The callers only pass rotation counts from 0 to 3, so
    \<^verbatim>\<open>quarter_rotations + 1\<close> never overflows.
  \<^item> \<^verbatim>\<open>DCHECK_xx\<close> is modelled as it behaves in a build with DCHECKs enabled: a failed
    check ends the call with an error value.
  \<^item> \<^verbatim>\<open>SkPath\<close> is modelled by the list of the drawing calls made on it, in order.
\<close>

subsection \<open>Skia values used by the file\<close>

type_synonym float = real

text \<open>\<^verbatim>\<open>SkPoint\<close> has the members \<^verbatim>\<open>fX\<close> and \<^verbatim>\<open>fY\<close>, read by \<^verbatim>\<open>x()\<close> and \<^verbatim>\<open>y()\<close>;
  \<^verbatim>\<open>SkVector\<close> is the same type.\<close>

record SkPoint =
  fX :: float
  fY :: float

type_synonym SkVector = SkPoint

definition SkPoint_Make :: "float \<Rightarrow> float \<Rightarrow> SkPoint" where
  "SkPoint_Make a b = \<lparr>fX = a, fY = b\<rparr>"

text \<open>\<^verbatim>\<open>operator+\<close> of a point and a vector.\<close>

definition SkPoint_plus :: "SkPoint \<Rightarrow> SkVector \<Rightarrow> SkPoint" where
  "SkPoint_plus a b = SkPoint_Make (fX a + fX b) (fY a + fY b)"

datatype ArcSize = kSmall_ArcSize | kLarge_ArcSize

datatype SkPathDirection = kCW | kCCW

text \<open>One constructor for each drawing call of \<^verbatim>\<open>SkPath\<close> that the file makes:
  \<^verbatim>\<open>moveTo(p)\<close>, \<^verbatim>\<open>lineTo(p)\<close>, \<^verbatim>\<open>cubicTo(p1, p2, p3)\<close>,
  \<^verbatim>\<open>arcTo(r, xAxisRotate, largeArc, sweep, xy)\<close> and \<^verbatim>\<open>close()\<close>.\<close>

datatype PathVerb =
  MoveTo SkPoint
| LineTo SkPoint
| CubicTo SkPoint SkPoint SkPoint
| ArcTo SkPoint float ArcSize SkPathDirection SkPoint
| ClosePath

type_synonym SkPath = "PathVerb list"

definition moveTo :: "SkPath \<Rightarrow> SkPoint \<Rightarrow> SkPath" where
  "moveTo path p = path @ [MoveTo p]"

definition lineTo :: "SkPath \<Rightarrow> SkPoint \<Rightarrow> SkPath" where
  "lineTo path p = path @ [LineTo p]"

definition cubicTo :: "SkPath \<Rightarrow> SkPoint \<Rightarrow> SkPoint \<Rightarrow> SkPoint \<Rightarrow> SkPath" where
  "cubicTo path p1 p2 p3 = path @ [CubicTo p1 p2 p3]"

definition arcTo ::
  "SkPath \<Rightarrow> SkPoint \<Rightarrow> float \<Rightarrow> ArcSize \<Rightarrow> SkPathDirection \<Rightarrow> SkPoint \<Rightarrow> SkPath" where
  "arcTo path r x_axis_rotate large_arc sweep xy =
     path @ [ArcTo r x_axis_rotate large_arc sweep xy]"

definition closePath :: "SkPath \<Rightarrow> SkPath" where
  "closePath path = path @ [ClosePath]"

subsection \<open>Fatal checks\<close>

datatype error = DCheckFailed string

definition DCHECK :: "bool \<Rightarrow> string \<Rightarrow> (error + 'a) \<Rightarrow> error + 'a" where
  "DCHECK ok what rest = (if ok then rest else Inl (DCheckFailed what))"

definition and_then :: "(error + 'a) \<Rightarrow> ('a \<Rightarrow> error + 'b) \<Rightarrow> error + 'b" where
  "and_then m f = (case m of Inl e \<Rightarrow> Inl e | Inr v \<Rightarrow> f v)"

subsection \<open>Constants\<close>

definition PI_DIV_4 :: float where
  "PI_DIV_4 = pi / 4"

definition EDGE_CURVE_POINT_RATIO :: float where
  "EDGE_CURVE_POINT_RATIO = 2 / 3"

subsection \<open>\<^verbatim>\<open>QuarterRotate\<close>\<close>

definition QuarterRotate :: "SkPoint \<Rightarrow> int \<Rightarrow> SkPoint" where
  "QuarterRotate p quarter_rotations =
     (let sign_x = (if quarter_rotations smod 4 < 2 then 1 else - 1);
          sign_y = (if (quarter_rotations + 1) smod 4 < 2 then 1 else - 1);
          is_even_rotation = (quarter_rotations smod 2 = 0);
          value_x = (if is_even_rotation then fX p else fY p);
          value_y = (if is_even_rotation then fY p else fX p)
      in SkPoint_Make (sign_x * value_x) (sign_y * value_y))"

subsection \<open>\<^verbatim>\<open>CurveGeometry\<close>\<close>

record CurveGeometry =
  edge_connecting_offset :: float
  edge_curve_offset :: float
  arc_curve_offset :: float
  arc_connecting_vector :: SkVector

definition edge_connecting_vector :: "CurveGeometry \<Rightarrow> SkVector" where
  "edge_connecting_vector g = SkPoint_Make (edge_connecting_offset g) 0"

definition edge_curve_vector :: "CurveGeometry \<Rightarrow> SkVector" where
  "edge_curve_vector g = SkPoint_Make (edge_curve_offset g) 0"

definition arc_curve_vector :: "CurveGeometry \<Rightarrow> SkVector" where
  "arc_curve_vector g = SkPoint_Make (arc_curve_offset g) 0"

definition arc_connecting_vector_transposed :: "CurveGeometry \<Rightarrow> SkVector" where
  "arc_connecting_vector_transposed g =
     SkPoint_Make (fY (arc_connecting_vector g)) (fX (arc_connecting_vector g))"

text \<open>The local variable \<^verbatim>\<open>arc_angle\<close> of the constructor.\<close>

definition arc_angle :: "float \<Rightarrow> float" where
  "arc_angle smoothness = PI_DIV_4 * smoothness"

text \<open>The constructor \<^verbatim>\<open>CurveGeometry::CurveGeometry(float radius, float smoothness)\<close>.\<close>

definition CurveGeometry_ctor :: "float \<Rightarrow> float \<Rightarrow> error + CurveGeometry" where
  "CurveGeometry_ctor radius smoothness =
     DCHECK (radius > 0) ''DCHECK_GT(radius, 0.0f)''
    (DCHECK (smoothness > 0) ''DCHECK_GT(smoothness, 0.0f)''
    (DCHECK (smoothness \<le> 1) ''DCHECK_LE(smoothness, 1.0f)''
    (let edge_connecting = (1 + smoothness) * radius;
         angle = arc_angle smoothness;
         arc_connecting = SkPoint_Make (1 - sin angle) (1 - cos angle);
         arc_curve = 1 - tan (angle / 2);
         edge_curve =
           edge_connecting - ((edge_connecting - arc_curve) * EDGE_CURVE_POINT_RATIO)
     in Inr \<lparr>edge_connecting_offset = edge_connecting,
              edge_curve_offset = edge_curve,
              arc_curve_offset = arc_curve,
              arc_connecting_vector = arc_connecting\<rparr>)))"

subsection \<open>\<^verbatim>\<open>DrawCorner\<close>\<close>

text \<open>The path is passed in and the extended path is returned.\<close>

definition DrawCorner ::
  "SkPath \<Rightarrow> float \<Rightarrow> CurveGeometry \<Rightarrow> SkPoint \<Rightarrow> int \<Rightarrow> error + SkPath" where
  "DrawCorner path radius curve corner quarter_rotations =
     DCHECK (quarter_rotations \<ge> 0) ''DCHECK_GE(quarter_rotations, 0)''
    (DCHECK (quarter_rotations < 4) ''DCHECK_LT(quarter_rotations, 4)''
    (let edge_connecting_point_in =
           SkPoint_plus corner
             (QuarterRotate (edge_connecting_vector curve) (quarter_rotations + 1));
         path1 =
           (if quarter_rotations = 0 then moveTo path edge_connecting_point_in
            else lineTo path edge_connecting_point_in);
         edge_curve_point_in =
           SkPoint_plus corner
             (QuarterRotate (edge_curve_vector curve) (quarter_rotations + 1));
         arc_curve_point_in =
           SkPoint_plus corner
             (QuarterRotate (arc_curve_vector curve) (quarter_rotations + 1));
         arc_connecting_point_in =
           SkPoint_plus corner
             (QuarterRotate (arc_connecting_vector_transposed curve) quarter_rotations);
         path2 = cubicTo path1 edge_curve_point_in arc_curve_point_in arc_connecting_point_in;
         arc_connecting_point =
           SkPoint_plus corner (QuarterRotate (arc_connecting_vector curve) quarter_rotations);
         path3 =
           arcTo path2 (SkPoint_Make radius radius) 0 kSmall_ArcSize kCW arc_connecting_point;
         arc_curve_point =
           SkPoint_plus corner (QuarterRotate (arc_curve_vector curve) quarter_rotations);
         edge_curve_point =
           SkPoint_plus corner (QuarterRotate (edge_curve_vector curve) quarter_rotations);
         edge_connecting_point =
           SkPoint_plus corner (QuarterRotate (edge_connecting_vector curve) quarter_rotations);
         path4 = cubicTo path3 arc_curve_point edge_curve_point edge_connecting_point
     in Inr path4))"

subsection \<open>\<^verbatim>\<open>DrawSmoothRoundRect\<close>\<close>

text \<open>Each \<^verbatim>\<open>CurveGeometry\<close> is constructed as an argument of its \<^verbatim>\<open>DrawCorner\<close> call,
  so its checks run before that corner is drawn.\<close>

definition DrawSmoothRoundRect ::
  "float \<Rightarrow> float \<Rightarrow> float \<Rightarrow> float \<Rightarrow> float \<Rightarrow> float \<Rightarrow> float \<Rightarrow> float \<Rightarrow> float
     \<Rightarrow> error + SkPath" where
  "DrawSmoothRoundRect x y width height smoothness
       top_left_radius top_right_radius bottom_right_radius bottom_left_radius =
     DCHECK (width > 0) ''DCHECK_GT(width, 0.0f)''
    (DCHECK (height > 0) ''DCHECK_GT(height, 0.0f)''
    (DCHECK (smoothness > 0) ''DCHECK_GT(smoothness, 0.0f)''
    (DCHECK (smoothness \<le> 1) ''DCHECK_LE(smoothness, 1.0f)''
    (DCHECK (top_left_radius > 0) ''DCHECK_GT(top_left_radius, 0.0f)''
    (DCHECK (top_right_radius > 0) ''DCHECK_GT(top_right_radius, 0.0f)''
    (DCHECK (bottom_right_radius > 0) ''DCHECK_GT(bottom_right_radius, 0.0f)''
    (DCHECK (bottom_left_radius > 0) ''DCHECK_GT(bottom_left_radius, 0.0f)''
    (and_then (CurveGeometry_ctor top_left_radius smoothness) (\<lambda>curve0.
     and_then (DrawCorner [] top_left_radius curve0 (SkPoint_Make x y) 0) (\<lambda>path1.
     and_then (CurveGeometry_ctor top_right_radius smoothness) (\<lambda>curve1.
     and_then (DrawCorner path1 top_right_radius curve1
                 (SkPoint_Make (x + width) y) 1) (\<lambda>path2.
     and_then (CurveGeometry_ctor bottom_right_radius smoothness) (\<lambda>curve2.
     and_then (DrawCorner path2 bottom_right_radius curve2
                 (SkPoint_Make (x + width) (y + height)) 2) (\<lambda>path3.
     and_then (CurveGeometry_ctor bottom_left_radius smoothness) (\<lambda>curve3.
     and_then (DrawCorner path3 bottom_left_radius curve3
                 (SkPoint_Make x (y + height)) 3) (\<lambda>path4.
     Inr (closePath path4)))))))))))))))))"

subsection \<open>Notions used to state the properties\<close>

text \<open>Following the specification's words, not the source: a vector turned clockwise by
  the angle \<open>theta\<close>, in the plane with the x axis to the right and the y axis upwards.
  This is the orientation of the table in the comment of \<^verbatim>\<open>QuarterRotate\<close>
  (one quarter turn takes \<open>(x, y)\<close> to \<open>(y, -x)\<close>); on a canvas whose y axis points
  downwards the same map is seen as an anticlockwise turn.\<close>

definition rotate_clockwise :: "real \<Rightarrow> SkPoint \<Rightarrow> SkPoint" where
  "rotate_clockwise theta v =
     \<lparr>fX = fX v * cos theta + fY v * sin theta,
      fY = fY v * cos theta - fX v * sin theta\<rparr>"

text \<open>The chain of offsets: \<open>0 \<le> arc_curve_offset \<le> edge_curve_offset \<le> edge_connecting_offset\<close>.\<close>

definition offsets_ordered :: "CurveGeometry \<Rightarrow> bool" where
  "offsets_ordered g \<longleftrightarrow>
     0 \<le> arc_curve_offset g \<and> arc_curve_offset g \<le> edge_curve_offset g
     \<and> edge_curve_offset g \<le> edge_connecting_offset g"

text \<open>The kind of a drawing call, without its points.\<close>

datatype VerbKind = kMove | kLine | kCubic | kArc | kClose

fun verb_kind :: "PathVerb \<Rightarrow> VerbKind" where
  "verb_kind (MoveTo p) = kMove"
| "verb_kind (LineTo p) = kLine"
| "verb_kind (CubicTo p1 p2 p3) = kCubic"
| "verb_kind (ArcTo r a l d p) = kArc"
| "verb_kind ClosePath = kClose"

definition count_kind :: "VerbKind \<Rightarrow> SkPath \<Rightarrow> nat" where
  "count_kind k path = length (filter (\<lambda>v. verb_kind v = k) path)"

text \<open>The point a drawing call ends at; \<^verbatim>\<open>close()\<close> names no point.\<close>

fun verb_end :: "PathVerb \<Rightarrow> SkPoint option" where
  "verb_end (MoveTo p) = Some p"
| "verb_end (LineTo p) = Some p"
| "verb_end (CubicTo p1 p2 p3) = Some p3"
| "verb_end (ArcTo r a l d p) = Some p"
| "verb_end ClosePath = None"

text \<open>The first move point of a path, and its final drawn point: the end of the last
  drawing call before a closing \<^verbatim>\<open>close()\<close>.\<close>

fun first_move_point :: "SkPath \<Rightarrow> SkPoint option" where
  "first_move_point (MoveTo p # path) = Some p"
| "first_move_point path = None"

fun final_point_rev :: "SkPath \<Rightarrow> SkPoint option" where
  "final_point_rev (ClosePath # v # path) = verb_end v"
| "final_point_rev path = None"

definition final_drawn_point :: "SkPath \<Rightarrow> SkPoint option" where
  "final_drawn_point path = final_point_rev (rev path)"

text \<open>The four drawing calls of corner \<open>i\<close> (0 = top left, 1 = top right,
  2 = bottom right, 3 = bottom left) in a path of \<^verbatim>\<open>DrawSmoothRoundRect\<close>.\<close>

definition corner_segments :: "nat \<Rightarrow> SkPath \<Rightarrow> SkPath" where
  "corner_segments i path = take 4 (drop (4 * i) path)"

section \<open>Properties of \<^verbatim>\<open>QuarterRotate\<close>\<close>

lemma QuarterRotate_0: "QuarterRotate v 0 = \<lparr>fX = fX v, fY = fY v\<rparr>"
  by (simp add: QuarterRotate_def SkPoint_Make_def signed_modulo_int_def)

lemma QuarterRotate_1: "QuarterRotate v 1 = \<lparr>fX = fY v, fY = - fX v\<rparr>"
  by (simp add: QuarterRotate_def SkPoint_Make_def signed_modulo_int_def)

lemma QuarterRotate_2: "QuarterRotate v 2 = \<lparr>fX = - fX v, fY = - fY v\<rparr>"
  by (simp add: QuarterRotate_def SkPoint_Make_def signed_modulo_int_def)

lemma QuarterRotate_3: "QuarterRotate v 3 = \<lparr>fX = - fY v, fY = fX v\<rparr>"
  by (simp add: QuarterRotate_def SkPoint_Make_def signed_modulo_int_def)

lemma QuarterRotate_4: "QuarterRotate v 4 = \<lparr>fX = fX v, fY = fY v\<rparr>"
  by (simp add: QuarterRotate_def SkPoint_Make_def signed_modulo_int_def)

lemma rotation_index_cases:
  "0 \<le> n \<Longrightarrow> n \<le> 3 \<Longrightarrow> n = 0 \<or> n = 1 \<or> n = 2 \<or> n = (3::int)"
  by arith

lemma three_quarter_turn: "sin (3 * pi / 2) = - 1" "cos (3 * pi / 2) = 0"
  using sin_3over2_pi cos_3over2_pi by (simp_all add: field_simps)

text \<open>
  Claim C1. For every vector \<open>v\<close> and every rotation index \<open>n\<close> from 0 to 3,
  \<^verbatim>\<open>QuarterRotate(v, n)\<close> is \<open>v\<close> turned clockwise by \<open>n\<close> quarter turns, and it is
  computed by signs and a swap: the sign of the first component is positive iff
  \<open>n mod 4 < 2\<close>, the sign of the second iff \<open>(n + 1) mod 4 < 2\<close>, and the two
  components are swapped before the signs are applied iff \<open>n\<close> is odd.
\<close>

theorem QuarterRotate_clockwise:
  assumes "0 \<le> n" and "n \<le> 3"
  shows "QuarterRotate v n = rotate_clockwise (of_int n * (pi / 2)) v
       \<and> QuarterRotate v n =
           \<lparr>fX = (if n mod 4 < 2 then 1 else - 1) * (if odd n then fY v else fX v),
            fY = (if (n + 1) mod 4 < 2 then 1 else - 1) * (if odd n then fX v else fY v)\<rparr>"
proof -
  consider "n = 0" | "n = 1" | "n = 2" | "n = 3"
    using rotation_index_cases [OF assms] by blast
  then show ?thesis
  proof cases
    case 1
    then show ?thesis by (simp add: QuarterRotate_0 rotate_clockwise_def)
  next
    case 2
    then show ?thesis by (simp add: QuarterRotate_1 rotate_clockwise_def)
  next
    case 3
    then show ?thesis by (simp add: QuarterRotate_2 rotate_clockwise_def)
  next
    case 4
    then show ?thesis by (simp add: QuarterRotate_3 rotate_clockwise_def three_quarter_turn)
  qed
qed

theorem QuarterRotate_clockwise_witness:
  "(0::int) \<le> 3 \<and> (3::int) \<le> 3
   \<and> QuarterRotate \<lparr>fX = 3, fY = 5\<rparr> 3
       = rotate_clockwise (of_int 3 * (pi / 2)) \<lparr>fX = 3, fY = 5\<rparr>
   \<and> QuarterRotate \<lparr>fX = 3, fY = 5\<rparr> 3 = \<lparr>fX = - 5, fY = 3\<rparr>"
  using QuarterRotate_clockwise [of 3 "\<lparr>fX = 3, fY = 5\<rparr>"]
  by (simp add: rotate_clockwise_def three_quarter_turn)

section \<open>Properties of the \<^verbatim>\<open>CurveGeometry\<close> constructor\<close>

lemma sqrt2_bounds: "14142 / 10000 < sqrt 2" "sqrt 2 < 14143 / 10000"
proof -
  show "14142 / 10000 < sqrt 2"
    by (rule real_less_rsqrt) (simp add: power2_eq_square)
  show "sqrt 2 < 14143 / 10000"
    by (rule real_less_lsqrt) (simp_all add: power2_eq_square)
qed

lemma tan_pi_8: "tan (pi / 8) = sqrt 2 - 1"
proof -
  have "tan (pi / 8) = sin (pi / 4) / (cos (pi / 4) + 1)"
    using tan_half [of "pi / 8"] by simp
  also have "\<dots> = (sqrt 2 / 2) / (sqrt 2 / 2 + 1)"
    by (simp add: sin_45 cos_45)
  also have "\<dots> = sqrt 2 - 1"
  proof -
    have "sqrt 2 * sqrt 2 = 2" by simp
    moreover have "sqrt 2 / 2 + 1 \<noteq> 0" using sqrt2_bounds by simp
    ultimately show ?thesis by (simp add: field_simps)
  qed
  finally show ?thesis .
qed

lemma arc_angle_range:
  assumes "0 < s" and "s \<le> 1"
  shows "0 < arc_angle s" and "arc_angle s \<le> pi / 4"
  using assms pi_gt_zero by (simp_all add: arc_angle_def PI_DIV_4_def)

text \<open>On a valid input no check of the constructor fails, and the four members are
  the values of the source's assignments.\<close>

lemma CurveGeometry_ctor_valid:
  assumes "0 < radius" and "0 < smoothness" and "smoothness \<le> 1"
  shows "CurveGeometry_ctor radius smoothness =
     Inr \<lparr>edge_connecting_offset = (1 + smoothness) * radius,
          edge_curve_offset =
            (1 + smoothness) * radius
            - (((1 + smoothness) * radius - (1 - tan (arc_angle smoothness / 2)))
               * EDGE_CURVE_POINT_RATIO),
          arc_curve_offset = 1 - tan (arc_angle smoothness / 2),
          arc_connecting_vector =
            \<lparr>fX = 1 - sin (arc_angle smoothness), fY = 1 - cos (arc_angle smoothness)\<rparr>\<rparr>"
  using assms by (simp add: CurveGeometry_ctor_def DCHECK_def SkPoint_Make_def Let_def)

lemma CurveGeometry_ctor_Inr:
  assumes "0 < radius" and "0 < smoothness" and "smoothness \<le> 1"
  shows "CurveGeometry_ctor radius smoothness =
           Inr (projr (CurveGeometry_ctor radius smoothness))"
  by (simp add: CurveGeometry_ctor_valid [OF assms])

lemma tan_half_angle_range:
  assumes "0 < s" and "s \<le> 1"
  shows "0 < tan (arc_angle s / 2)" and "tan (arc_angle s / 2) \<le> sqrt 2 - 1"
proof -
  have a: "0 < arc_angle s / 2" "arc_angle s / 2 \<le> pi / 8"
    using arc_angle_range [OF assms] by simp_all
  have "arc_angle s / 2 < pi / 2" using a pi_gt_zero by linarith
  then show "0 < tan (arc_angle s / 2)" using a by (simp add: tan_gt_zero)
  have "tan (arc_angle s / 2) \<le> tan (pi / 8)"
    by (rule tan_mono_le) (use a pi_gt_zero in linarith)+
  then show "tan (arc_angle s / 2) \<le> sqrt 2 - 1" by (simp add: tan_pi_8)
qed

lemma sin_cos_arc_angle_range:
  assumes "0 < s" and "s \<le> 1"
  shows "0 < sin (arc_angle s)" and "sin (arc_angle s) \<le> sqrt 2 / 2"
    and "sqrt 2 / 2 \<le> cos (arc_angle s)" and "cos (arc_angle s) \<le> 1"
proof -
  have a: "0 < arc_angle s" "arc_angle s \<le> pi / 4"
    using arc_angle_range [OF assms] by simp_all
  have b: "arc_angle s < pi" "arc_angle s \<le> pi / 2" "- (pi / 2) \<le> arc_angle s"
    using a pi_gt_zero by linarith+
  show "0 < sin (arc_angle s)" using a b by (simp add: sin_gt_zero)
  have "sin (arc_angle s) \<le> sin (pi / 4)"
    by (rule sin_monotone_2pi_le) (use a b pi_gt_zero in linarith)+
  then show "sin (arc_angle s) \<le> sqrt 2 / 2" by (simp add: sin_45)
  have "cos (pi / 4) \<le> cos (arc_angle s)"
    by (rule cos_monotone_0_pi_le) (use a b pi_gt_zero in linarith)+
  then show "sqrt 2 / 2 \<le> cos (arc_angle s)" by (simp add: cos_45)
  show "cos (arc_angle s) \<le> 1" by simp
qed

lemma sin_arc_angle_max:
  assumes "0 < s" and "s \<le> 1"
  shows "sqrt 2 / 2 \<le> sin (arc_angle s) \<longleftrightarrow> s = 1"
proof -
  have a: "0 < arc_angle s" "arc_angle s \<le> pi / 4"
    using arc_angle_range [OF assms] by simp_all
  have "sin (pi / 4) \<le> sin (arc_angle s) \<longleftrightarrow> pi / 4 \<le> arc_angle s"
    by (rule sin_mono_le_eq) (use a pi_gt_zero in linarith)+
  also have "\<dots> \<longleftrightarrow> s = 1"
    using assms pi_gt_zero by (auto simp add: arc_angle_def PI_DIV_4_def)
  finally show ?thesis by (simp add: sin_45)
qed

text \<open>
  Claim C3. For every radius \<open>> 0\<close> and smoothness in \<open>(0, 1]\<close> the constructor returns
  the geometry with \<open>edge_connecting_offset = (1 + smoothness) * radius\<close>,
  \<open>arc_angle = (pi / 4) * smoothness\<close>,
  \<open>arc_connecting_vector = (1 - sin arc_angle, 1 - cos arc_angle)\<close>,
  \<open>arc_curve_offset = 1 - tan (arc_angle / 2)\<close> and
  \<open>edge_curve_offset = edge_connecting_offset
     - (edge_connecting_offset - arc_curve_offset) * (2 / 3)\<close>.
  At smoothness 1 the angle is \<open>pi / 4\<close>, both components of the arc connecting vector
  are \<open>1 - sqrt 2 / 2\<close>, within \<open>0.0001\<close> of \<open>0.2929\<close>, and the arc curve offset
  is \<open>1 - tan (pi / 8)\<close>, within \<open>0.0001\<close> of \<open>0.5858\<close>.
\<close>

theorem CurveGeometry_formulas:
  assumes "0 < radius" and "0 < smoothness" and "smoothness \<le> 1"
  shows "CurveGeometry_ctor radius smoothness =
           Inr \<lparr>edge_connecting_offset = (1 + smoothness) * radius,
                edge_curve_offset =
                  (1 + smoothness) * radius
                  - ((1 + smoothness) * radius - (1 - tan (pi / 4 * smoothness / 2))) * (2 / 3),
                arc_curve_offset = 1 - tan (pi / 4 * smoothness / 2),
                arc_connecting_vector =
                  \<lparr>fX = 1 - sin (pi / 4 * smoothness), fY = 1 - cos (pi / 4 * smoothness)\<rparr>\<rparr>
       \<and> arc_angle smoothness = pi / 4 * smoothness
       \<and> arc_angle 1 = pi / 4
       \<and> (\<exists>g. CurveGeometry_ctor radius 1 = Inr g
              \<and> arc_connecting_vector g = \<lparr>fX = 1 - sqrt 2 / 2, fY = 1 - sqrt 2 / 2\<rparr>
              \<and> \<bar>fX (arc_connecting_vector g) - 2929 / 10000\<bar> < 1 / 10000
              \<and> \<bar>fY (arc_connecting_vector g) - 2929 / 10000\<bar> < 1 / 10000
              \<and> arc_curve_offset g = 1 - tan (pi / 8)
              \<and> \<bar>arc_curve_offset g - 5858 / 10000\<bar> < 1 / 10000)"
proof (intro conjI)
  show "CurveGeometry_ctor radius smoothness =
           Inr \<lparr>edge_connecting_offset = (1 + smoothness) * radius,
                edge_curve_offset =
                  (1 + smoothness) * radius
                  - ((1 + smoothness) * radius - (1 - tan (pi / 4 * smoothness / 2))) * (2 / 3),
                arc_curve_offset = 1 - tan (pi / 4 * smoothness / 2),
                arc_connecting_vector =
                  \<lparr>fX = 1 - sin (pi / 4 * smoothness), fY = 1 - cos (pi / 4 * smoothness)\<rparr>\<rparr>"
    using CurveGeometry_ctor_valid [OF assms]
    by (simp add: arc_angle_def PI_DIV_4_def EDGE_CURVE_POINT_RATIO_def)
  show "arc_angle smoothness = pi / 4 * smoothness"
    by (simp add: arc_angle_def PI_DIV_4_def)
  show "arc_angle 1 = pi / 4"
    by (simp add: arc_angle_def PI_DIV_4_def)
  have one: "arc_angle 1 = pi / 4" "arc_angle 1 / 2 = pi / 8"
    by (simp_all add: arc_angle_def PI_DIV_4_def)
  have "CurveGeometry_ctor radius 1 =
     Inr \<lparr>edge_connecting_offset = (1 + 1) * radius,
          edge_curve_offset =
            (1 + 1) * radius
            - (((1 + 1) * radius - (1 - tan (pi / 8))) * EDGE_CURVE_POINT_RATIO),
          arc_curve_offset = 1 - tan (pi / 8),
          arc_connecting_vector = \<lparr>fX = 1 - sqrt 2 / 2, fY = 1 - sqrt 2 / 2\<rparr>\<rparr>"
    using CurveGeometry_ctor_valid [of radius 1] assms(1)
    by (simp add: one sin_45 cos_45)
  moreover have "\<bar>1 - sqrt 2 / 2 - 2929 / 10000\<bar> < 1 / 10000"
    using sqrt2_bounds by (simp add: abs_less_iff)
  moreover have "\<bar>1 - tan (pi / 8) - 5858 / 10000\<bar> < 1 / 10000"
    using sqrt2_bounds by (simp add: tan_pi_8 abs_less_iff)
  ultimately show "\<exists>g. CurveGeometry_ctor radius 1 = Inr g
              \<and> arc_connecting_vector g = \<lparr>fX = 1 - sqrt 2 / 2, fY = 1 - sqrt 2 / 2\<rparr>
              \<and> \<bar>fX (arc_connecting_vector g) - 2929 / 10000\<bar> < 1 / 10000
              \<and> \<bar>fY (arc_connecting_vector g) - 2929 / 10000\<bar> < 1 / 10000
              \<and> arc_curve_offset g = 1 - tan (pi / 8)
              \<and> \<bar>arc_curve_offset g - 5858 / 10000\<bar> < 1 / 10000"
    by simp
qed

theorem CurveGeometry_formulas_witness:
  "(0::real) < 30 \<and> (0::real) < 1 \<and> (1::real) \<le> 1
   \<and> CurveGeometry_ctor 30 1 =
           Inr \<lparr>edge_connecting_offset = (1 + 1) * 30,
                edge_curve_offset =
                  (1 + 1) * 30 - ((1 + 1) * 30 - (1 - tan (pi / 4 * 1 / 2))) * (2 / 3),
                arc_curve_offset = 1 - tan (pi / 4 * 1 / 2),
                arc_connecting_vector =
                  \<lparr>fX = 1 - sin (pi / 4 * 1), fY = 1 - cos (pi / 4 * 1)\<rparr>\<rparr>"
  using CurveGeometry_formulas [of 30 1] by simp

text \<open>
  The chain of claim C5 fails for a small radius: with radius \<open>1/4\<close> and smoothness 1
  the edge connecting offset is \<open>1/2\<close>, below the arc curve offset \<open>2 - sqrt 2\<close>, and
  the edge curve offset lies between the two.
\<close>

theorem offsets_chain_counterexample:
  "CurveGeometry_ctor (1 / 4) 1 =
      Inr \<lparr>edge_connecting_offset = 1 / 2,
           edge_curve_offset = 3 / 2 - 2 * sqrt 2 / 3,
           arc_curve_offset = 2 - sqrt 2,
           arc_connecting_vector = \<lparr>fX = 1 - sqrt 2 / 2, fY = 1 - sqrt 2 / 2\<rparr>\<rparr>
   \<and> \<not> offsets_ordered (projr (CurveGeometry_ctor (1 / 4) 1))"
proof -
  have one: "arc_angle 1 = pi / 4" "arc_angle 1 / 2 = pi / 8"
    by (simp_all add: arc_angle_def PI_DIV_4_def)
  have v: "CurveGeometry_ctor (1 / 4) 1 =
      Inr \<lparr>edge_connecting_offset = 1 / 2,
           edge_curve_offset = 3 / 2 - 2 * sqrt 2 / 3,
           arc_curve_offset = 2 - sqrt 2,
           arc_connecting_vector = \<lparr>fX = 1 - sqrt 2 / 2, fY = 1 - sqrt 2 / 2\<rparr>\<rparr>"
    using CurveGeometry_ctor_valid [of "1 / 4" 1]
    by (simp add: one sin_45 cos_45 tan_pi_8 EDGE_CURVE_POINT_RATIO_def field_simps)
  have "\<not> offsets_ordered (projr (CurveGeometry_ctor (1 / 4) 1))"
    using sqrt2_bounds by (simp add: v offsets_ordered_def)
  with v show ?thesis by simp
qed

text \<open>
  Claim C5, as amended. For every radius \<open>> 0\<close> and smoothness in \<open>(0, 1]\<close> the arc
  curve offset lies in \<open>[0, 1)\<close>, and the chain
  \<open>0 \<le> arc_curve_offset \<le> edge_curve_offset \<le> edge_connecting_offset\<close> holds exactly
  when \<open>arc_curve_offset \<le> edge_connecting_offset\<close>; it holds for every radius \<open>\<ge> 1\<close>.
\<close>

theorem offsets_chain_amended:
  assumes "0 < radius" and "0 < smoothness" and "smoothness \<le> 1"
  shows "\<exists>g. CurveGeometry_ctor radius smoothness = Inr g
     \<and> 0 \<le> arc_curve_offset g \<and> arc_curve_offset g < 1
     \<and> (offsets_ordered g \<longleftrightarrow> arc_curve_offset g \<le> edge_connecting_offset g)
     \<and> (1 \<le> radius \<longrightarrow> offsets_ordered g)"
proof -
  have t: "0 < tan (arc_angle smoothness / 2)" "tan (arc_angle smoothness / 2) \<le> sqrt 2 - 1"
    using tan_half_angle_range [OF assms(2,3)] by simp_all
  have t1: "tan (arc_angle smoothness / 2) \<le> 1" using t(2) sqrt2_bounds by linarith
  have r: "1 \<le> radius \<Longrightarrow> 1 \<le> (1 + smoothness) * radius"
  proof -
    assume "1 \<le> radius"
    then have "1 * 1 \<le> (1 + smoothness) * radius"
      using assms(2) by (intro mult_mono) simp_all
    then show ?thesis by simp
  qed
  show ?thesis
    using CurveGeometry_ctor_valid [OF assms] t(1) t1 r
    by (auto simp add: offsets_ordered_def EDGE_CURVE_POINT_RATIO_def field_simps)
qed

theorem offsets_chain_amended_witness:
  "(0::real) < 20 \<and> (0::real) < 3 / 5 \<and> (3 / 5 :: real) \<le> 1 \<and> (1::real) \<le> 20
   \<and> offsets_ordered (projr (CurveGeometry_ctor 20 (3 / 5)))"
  using offsets_chain_amended [of 20 "3 / 5"] by auto

text \<open>
  The first component of the arc connecting vector leaves the interval of claim C8:
  with smoothness \<open>2/3\<close> the angle is \<open>pi / 6\<close> and the component is \<open>1/2\<close>, above
  \<open>1 - sqrt 2 / 2\<close>.
\<close>

theorem arc_connecting_vector_counterexample:
  "\<not> isl (CurveGeometry_ctor 30 (2 / 3))
   \<and> arc_connecting_vector (projr (CurveGeometry_ctor 30 (2 / 3)))
        = \<lparr>fX = 1 / 2, fY = 1 - sqrt 3 / 2\<rparr>
   \<and> \<not> fX (arc_connecting_vector (projr (CurveGeometry_ctor 30 (2 / 3)))) \<le> 1 - sqrt 2 / 2"
proof -
  have a: "arc_angle (2 / 3) = pi / 6"
    by (simp add: arc_angle_def PI_DIV_4_def)
  have v: "arc_connecting_vector (projr (CurveGeometry_ctor 30 (2 / 3)))
        = \<lparr>fX = 1 / 2, fY = 1 - sqrt 3 / 2\<rparr>"
    by (simp add: CurveGeometry_ctor_valid a sin_30 cos_30)
  have c: "\<not> isl (CurveGeometry_ctor 30 (2 / 3))"
    by (simp add: CurveGeometry_ctor_valid)
  have "\<not> (1 / 2 \<le> 1 - sqrt 2 / 2)"
    using sqrt2_bounds by simp
  with v c show ?thesis by simp
qed

text \<open>
  Claim C8, as amended. For every radius \<open>> 0\<close> and smoothness in \<open>(0, 1]\<close> the second
  component \<open>1 - cos arc_angle\<close> of the arc connecting vector lies in
  \<open>[0, 1 - sqrt 2 / 2]\<close>, and the first component \<open>1 - sin arc_angle\<close> lies in
  \<open>[1 - sqrt 2 / 2, 1)\<close>; the first component is at most \<open>1 - sqrt 2 / 2\<close> only at
  smoothness 1.
\<close>

theorem arc_connecting_vector_range:
  assumes "0 < radius" and "0 < smoothness" and "smoothness \<le> 1"
  shows "\<exists>g. CurveGeometry_ctor radius smoothness = Inr g
     \<and> 0 \<le> fY (arc_connecting_vector g) \<and> fY (arc_connecting_vector g) \<le> 1 - sqrt 2 / 2
     \<and> 1 - sqrt 2 / 2 \<le> fX (arc_connecting_vector g) \<and> fX (arc_connecting_vector g) < 1
     \<and> (fX (arc_connecting_vector g) \<le> 1 - sqrt 2 / 2 \<longleftrightarrow> smoothness = 1)"
  using CurveGeometry_ctor_valid [OF assms] sin_cos_arc_angle_range [OF assms(2,3)]
    sin_arc_angle_max [OF assms(2,3)]
  by simp

theorem arc_connecting_vector_range_witness:
  "(0::real) < 30 \<and> (0::real) < 2 / 3 \<and> (2 / 3 :: real) \<le> 1
   \<and> 0 \<le> fY (arc_connecting_vector (projr (CurveGeometry_ctor 30 (2 / 3))))
   \<and> fY (arc_connecting_vector (projr (CurveGeometry_ctor 30 (2 / 3)))) \<le> 1 - sqrt 2 / 2
   \<and> 1 - sqrt 2 / 2 \<le> fX (arc_connecting_vector (projr (CurveGeometry_ctor 30 (2 / 3))))
   \<and> fX (arc_connecting_vector (projr (CurveGeometry_ctor 30 (2 / 3)))) < 1"
  using arc_connecting_vector_range [of 30 "2 / 3"] by auto

text \<open>
  Claim C10. For every radius \<open>> 0\<close> and smoothness in \<open>(0, 1]\<close> the edge curve offset
  is the convex combination
  \<open>(1/3) * edge_connecting_offset + (2/3) * arc_curve_offset\<close>, so it lies between the
  smaller and the larger of the arc curve offset and the edge connecting offset,
  whichever of the two is larger.
\<close>

theorem edge_curve_offset_between:
  assumes "0 < radius" and "0 < smoothness" and "smoothness \<le> 1"
  shows "\<exists>g. CurveGeometry_ctor radius smoothness = Inr g
     \<and> edge_curve_offset g = (1 / 3) * edge_connecting_offset g + (2 / 3) * arc_curve_offset g
     \<and> min (arc_curve_offset g) (edge_connecting_offset g) \<le> edge_curve_offset g
     \<and> edge_curve_offset g \<le> max (arc_curve_offset g) (edge_connecting_offset g)"
  using CurveGeometry_ctor_valid [OF assms]
  by (simp add: EDGE_CURVE_POINT_RATIO_def min_def max_def field_simps)

theorem edge_curve_offset_between_witness:
  "(0::real) < 1 / 4 \<and> (0::real) < 1 \<and> (1::real) \<le> 1
   \<and> min (arc_curve_offset (projr (CurveGeometry_ctor (1 / 4) 1)))
          (edge_connecting_offset (projr (CurveGeometry_ctor (1 / 4) 1)))
       \<le> edge_curve_offset (projr (CurveGeometry_ctor (1 / 4) 1))
   \<and> edge_curve_offset (projr (CurveGeometry_ctor (1 / 4) 1))
       \<le> max (arc_curve_offset (projr (CurveGeometry_ctor (1 / 4) 1)))
              (edge_connecting_offset (projr (CurveGeometry_ctor (1 / 4) 1)))"
  using edge_curve_offset_between [of "1 / 4" 1] by auto

section \<open>The transposed arc connecting vector\<close>

text \<open>
  Transposing is not one more quarter turn. For the geometry of radius 30 and
  smoothness 1 and the top left corner (index 0), the transposed vector turned 0 times
  and the vector itself turned once differ in the sign of the second component.
\<close>

theorem transpose_counterexample:
  "\<not> isl (CurveGeometry_ctor 30 1)
   \<and> arc_connecting_vector (projr (CurveGeometry_ctor 30 1))
       = \<lparr>fX = 1 - sqrt 2 / 2, fY = 1 - sqrt 2 / 2\<rparr>
   \<and> QuarterRotate (arc_connecting_vector_transposed (projr (CurveGeometry_ctor 30 1))) 0
       = \<lparr>fX = 1 - sqrt 2 / 2, fY = 1 - sqrt 2 / 2\<rparr>
   \<and> QuarterRotate (arc_connecting_vector (projr (CurveGeometry_ctor 30 1))) (0 + 1)
       = \<lparr>fX = 1 - sqrt 2 / 2, fY = - (1 - sqrt 2 / 2)\<rparr>
   \<and> QuarterRotate (arc_connecting_vector_transposed (projr (CurveGeometry_ctor 30 1))) 0
       \<noteq> QuarterRotate (arc_connecting_vector (projr (CurveGeometry_ctor 30 1))) (0 + 1)"
proof -
  have one: "arc_angle 1 = pi / 4"
    by (simp add: arc_angle_def PI_DIV_4_def)
  have v: "arc_connecting_vector (projr (CurveGeometry_ctor 30 1))
       = \<lparr>fX = 1 - sqrt 2 / 2, fY = 1 - sqrt 2 / 2\<rparr>"
    by (simp add: CurveGeometry_ctor_valid one sin_45 cos_45)
  have ne: "1 - sqrt 2 / 2 \<noteq> - (1 - sqrt 2 / 2)"
    using sqrt2_bounds by simp
  have c: "\<not> isl (CurveGeometry_ctor 30 1)"
    by (simp add: CurveGeometry_ctor_valid)
  show ?thesis
    using ne
    by (simp add: c v arc_connecting_vector_transposed_def SkPoint_Make_def
        QuarterRotate_0 QuarterRotate_1)
qed

text \<open>
  Claim C7, as amended. For every geometry and every rotation index \<open>n\<close> from 0 to 3,
  \<^verbatim>\<open>QuarterRotate\<close> of the transposed arc connecting vector with index \<open>n\<close> equals
  \<^verbatim>\<open>QuarterRotate\<close> with index \<open>n + 1\<close> of the vector with its first component
  negated: a transposition is one more quarter turn of the mirrored vector. It equals
  \<^verbatim>\<open>QuarterRotate\<close> of the vector itself with index \<open>n + 1\<close> exactly when the first
  component of the vector is 0.
\<close>

theorem transposed_is_mirrored_quarter_turn:
  assumes "0 \<le> n" and "n \<le> 3"
  shows "QuarterRotate (arc_connecting_vector_transposed g) n =
           QuarterRotate \<lparr>fX = - fX (arc_connecting_vector g), fY = fY (arc_connecting_vector g)\<rparr>
             (n + 1)
     \<and> (QuarterRotate (arc_connecting_vector_transposed g) n =
           QuarterRotate (arc_connecting_vector g) (n + 1)
         \<longleftrightarrow> fX (arc_connecting_vector g) = 0)"
proof -
  consider "n = 0" | "n = 1" | "n = 2" | "n = 3"
    using rotation_index_cases [OF assms] by blast
  then show ?thesis
  proof cases
    case 1
    then show ?thesis
      by (simp add: QuarterRotate_0 QuarterRotate_1 arc_connecting_vector_transposed_def
          SkPoint_Make_def)
  next
    case 2
    then show ?thesis
      by (simp add: QuarterRotate_1 QuarterRotate_2 arc_connecting_vector_transposed_def
          SkPoint_Make_def)
  next
    case 3
    then show ?thesis
      by (simp add: QuarterRotate_2 QuarterRotate_3 arc_connecting_vector_transposed_def
          SkPoint_Make_def)
  next
    case 4
    then show ?thesis
      by (simp add: QuarterRotate_3 QuarterRotate_4 arc_connecting_vector_transposed_def
          SkPoint_Make_def)
  qed
qed

theorem transposed_is_mirrored_quarter_turn_witness:
  "(0::int) \<le> 2 \<and> (2::int) \<le> 3
   \<and> QuarterRotate (arc_connecting_vector_transposed
        \<lparr>edge_connecting_offset = 7, edge_curve_offset = 6, arc_curve_offset = 5,
         arc_connecting_vector = \<lparr>fX = 3, fY = 4\<rparr>\<rparr>) 2
       = QuarterRotate \<lparr>fX = - 3, fY = 4\<rparr> 3
   \<and> QuarterRotate (arc_connecting_vector_transposed
        \<lparr>edge_connecting_offset = 7, edge_curve_offset = 6, arc_curve_offset = 5,
         arc_connecting_vector = \<lparr>fX = 3, fY = 4\<rparr>\<rparr>) 2
       \<noteq> QuarterRotate \<lparr>fX = 3, fY = 4\<rparr> 3"
  using transposed_is_mirrored_quarter_turn [of 2
      "\<lparr>edge_connecting_offset = 7, edge_curve_offset = 6, arc_curve_offset = 5,
         arc_connecting_vector = \<lparr>fX = 3, fY = 4\<rparr>\<rparr>"]
  by (simp add: QuarterRotate_3)

section \<open>Properties of \<^verbatim>\<open>DrawCorner\<close> and \<^verbatim>\<open>DrawSmoothRoundRect\<close>\<close>

text \<open>With a rotation index from 0 to 3 no check of \<^verbatim>\<open>DrawCorner\<close> fails, and it
  appends four drawing calls to the path.\<close>

lemma DrawCorner_valid:
  assumes "0 \<le> q" and "q < 4"
  shows "DrawCorner path radius curve corner q =
     Inr (path @
       [if q = 0
        then MoveTo (SkPoint_plus corner (QuarterRotate (edge_connecting_vector curve) (q + 1)))
        else LineTo (SkPoint_plus corner (QuarterRotate (edge_connecting_vector curve) (q + 1))),
        CubicTo (SkPoint_plus corner (QuarterRotate (edge_curve_vector curve) (q + 1)))
                (SkPoint_plus corner (QuarterRotate (arc_curve_vector curve) (q + 1)))
                (SkPoint_plus corner (QuarterRotate (arc_connecting_vector_transposed curve) q)),
        ArcTo (SkPoint_Make radius radius) 0 kSmall_ArcSize kCW
              (SkPoint_plus corner (QuarterRotate (arc_connecting_vector curve) q)),
        CubicTo (SkPoint_plus corner (QuarterRotate (arc_curve_vector curve) q))
                (SkPoint_plus corner (QuarterRotate (edge_curve_vector curve) q))
                (SkPoint_plus corner (QuarterRotate (edge_connecting_vector curve) q))])"
  using assms
  by (simp add: DrawCorner_def DCHECK_def Let_def moveTo_def lineTo_def cubicTo_def arcTo_def)

lemma DrawCorner_append:
  assumes "0 \<le> q" and "q < 4"
  shows "DrawCorner path radius curve corner q =
           Inr (path @ projr (DrawCorner [] radius curve corner q))"
  by (simp add: DrawCorner_valid [OF assms])

lemma DrawCorner_length:
  assumes "0 \<le> q" and "q < 4"
  shows "length (projr (DrawCorner [] radius curve corner q)) = 4"
  by (simp add: DrawCorner_valid [OF assms])

lemma DrawCorner_kinds:
  assumes "0 \<le> q" and "q < 4"
  shows "map verb_kind (projr (DrawCorner [] radius curve corner q)) =
           [if q = 0 then kMove else kLine, kCubic, kArc, kCubic]"
  by (simp add: DrawCorner_valid [OF assms])

text \<open>On a valid input the path is the four corners' calls, in the order top left, top
  right, bottom right, bottom left, followed by \<^verbatim>\<open>close()\<close>.\<close>

lemma DrawSmoothRoundRect_valid:
  assumes "0 < width" and "0 < height" and "0 < smoothness" and "smoothness \<le> 1"
    and "0 < r_tl" and "0 < r_tr" and "0 < r_br" and "0 < r_bl"
  shows "DrawSmoothRoundRect x y width height smoothness r_tl r_tr r_br r_bl =
     Inr (projr (DrawCorner [] r_tl (projr (CurveGeometry_ctor r_tl smoothness))
                   (SkPoint_Make x y) 0)
        @ projr (DrawCorner [] r_tr (projr (CurveGeometry_ctor r_tr smoothness))
                   (SkPoint_Make (x + width) y) 1)
        @ projr (DrawCorner [] r_br (projr (CurveGeometry_ctor r_br smoothness))
                   (SkPoint_Make (x + width) (y + height)) 2)
        @ projr (DrawCorner [] r_bl (projr (CurveGeometry_ctor r_bl smoothness))
                   (SkPoint_Make x (y + height)) 3)
        @ [ClosePath])"
proof -
  have g: "CurveGeometry_ctor r_tl smoothness = Inr (projr (CurveGeometry_ctor r_tl smoothness))"
    "CurveGeometry_ctor r_tr smoothness = Inr (projr (CurveGeometry_ctor r_tr smoothness))"
    "CurveGeometry_ctor r_br smoothness = Inr (projr (CurveGeometry_ctor r_br smoothness))"
    "CurveGeometry_ctor r_bl smoothness = Inr (projr (CurveGeometry_ctor r_bl smoothness))"
    using assms by (simp_all add: CurveGeometry_ctor_Inr [symmetric])
  have c: "\<And>path r c p. DrawCorner path r c p 0 = Inr (path @ projr (DrawCorner [] r c p 0))"
    "\<And>path r c p. DrawCorner path r c p 1 = Inr (path @ projr (DrawCorner [] r c p 1))"
    "\<And>path r c p. DrawCorner path r c p 2 = Inr (path @ projr (DrawCorner [] r c p 2))"
    "\<And>path r c p. DrawCorner path r c p 3 = Inr (path @ projr (DrawCorner [] r c p 3))"
    by (rule DrawCorner_append; simp)+
  have "DrawSmoothRoundRect x y width height smoothness r_tl r_tr r_br r_bl =
    and_then (CurveGeometry_ctor r_tl smoothness) (\<lambda>curve0.
     and_then (DrawCorner [] r_tl curve0 (SkPoint_Make x y) 0) (\<lambda>path1.
     and_then (CurveGeometry_ctor r_tr smoothness) (\<lambda>curve1.
     and_then (DrawCorner path1 r_tr curve1 (SkPoint_Make (x + width) y) 1) (\<lambda>path2.
     and_then (CurveGeometry_ctor r_br smoothness) (\<lambda>curve2.
     and_then (DrawCorner path2 r_br curve2 (SkPoint_Make (x + width) (y + height)) 2) (\<lambda>path3.
     and_then (CurveGeometry_ctor r_bl smoothness) (\<lambda>curve3.
     and_then (DrawCorner path3 r_bl curve3 (SkPoint_Make x (y + height)) 3) (\<lambda>path4.
     Inr (closePath path4)))))))))"
    using assms by (simp add: DrawSmoothRoundRect_def DCHECK_def)
  also have "\<dots> = Inr (projr (DrawCorner [] r_tl (projr (CurveGeometry_ctor r_tl smoothness))
                   (SkPoint_Make x y) 0)
        @ projr (DrawCorner [] r_tr (projr (CurveGeometry_ctor r_tr smoothness))
                   (SkPoint_Make (x + width) y) 1)
        @ projr (DrawCorner [] r_br (projr (CurveGeometry_ctor r_br smoothness))
                   (SkPoint_Make (x + width) (y + height)) 2)
        @ projr (DrawCorner [] r_bl (projr (CurveGeometry_ctor r_bl smoothness))
                   (SkPoint_Make x (y + height)) 3)
        @ [ClosePath])"
    apply (subst g(1), simp only: and_then_def sum.case)
    apply (subst c(1), simp only: sum.case)
    apply (subst g(2), simp only: sum.case)
    apply (subst c(2), simp only: sum.case)
    apply (subst g(3), simp only: sum.case)
    apply (subst c(3), simp only: sum.case)
    apply (subst g(4), simp only: sum.case)
    apply (subst c(4), simp only: sum.case)
    apply (simp add: closePath_def)
    done
  finally show ?thesis .
qed

lemma DrawSmoothRoundRect_invalid:
  assumes "width \<le> 0 \<or> height \<le> 0 \<or> smoothness \<le> 0 \<or> 1 < smoothness
     \<or> r_tl \<le> 0 \<or> r_tr \<le> 0 \<or> r_br \<le> 0 \<or> r_bl \<le> 0"
  shows "isl (DrawSmoothRoundRect x y width height smoothness r_tl r_tr r_br r_bl)"
  using assms by (auto simp add: DrawSmoothRoundRect_def DCHECK_def)

lemma corner_segments_of_path:
  assumes "length a = 4" and "length b = 4" and "length c = 4" and "length d = 4"
  shows "corner_segments 0 (a @ b @ c @ d @ e) = a"
    and "corner_segments 1 (a @ b @ c @ d @ e) = b"
    and "corner_segments 2 (a @ b @ c @ d @ e) = c"
    and "corner_segments 3 (a @ b @ c @ d @ e) = d"
  using assms by (simp_all add: corner_segments_def)

lemma DrawSmoothRoundRect_corners:
  assumes "0 < width" and "0 < height" and "0 < smoothness" and "smoothness \<le> 1"
    and "0 < r_tl" and "0 < r_tr" and "0 < r_br" and "0 < r_bl"
  shows "\<exists>path. DrawSmoothRoundRect x y width height smoothness r_tl r_tr r_br r_bl = Inr path
     \<and> corner_segments 0 path =
         projr (DrawCorner [] r_tl (projr (CurveGeometry_ctor r_tl smoothness))
                  (SkPoint_Make x y) 0)
     \<and> corner_segments 1 path =
         projr (DrawCorner [] r_tr (projr (CurveGeometry_ctor r_tr smoothness))
                  (SkPoint_Make (x + width) y) 1)
     \<and> corner_segments 2 path =
         projr (DrawCorner [] r_br (projr (CurveGeometry_ctor r_br smoothness))
                  (SkPoint_Make (x + width) (y + height)) 2)
     \<and> corner_segments 3 path =
         projr (DrawCorner [] r_bl (projr (CurveGeometry_ctor r_bl smoothness))
                  (SkPoint_Make x (y + height)) 3)
     \<and> path = corner_segments 0 path @ corner_segments 1 path @ corner_segments 2 path
                @ corner_segments 3 path @ [ClosePath]"
proof -
  let ?a = "projr (DrawCorner [] r_tl (projr (CurveGeometry_ctor r_tl smoothness))
                  (SkPoint_Make x y) 0)"
  let ?b = "projr (DrawCorner [] r_tr (projr (CurveGeometry_ctor r_tr smoothness))
                  (SkPoint_Make (x + width) y) 1)"
  let ?c = "projr (DrawCorner [] r_br (projr (CurveGeometry_ctor r_br smoothness))
                  (SkPoint_Make (x + width) (y + height)) 2)"
  let ?d = "projr (DrawCorner [] r_bl (projr (CurveGeometry_ctor r_bl smoothness))
                  (SkPoint_Make x (y + height)) 3)"
  have len: "length ?a = 4" "length ?b = 4" "length ?c = 4" "length ?d = 4"
    by (simp_all add: DrawCorner_length)
  have path: "DrawSmoothRoundRect x y width height smoothness r_tl r_tr r_br r_bl =
      Inr (?a @ ?b @ ?c @ ?d @ [ClosePath])"
    by (rule DrawSmoothRoundRect_valid [OF assms])
  note seg = corner_segments_of_path [OF len, of "[ClosePath]"]
  show ?thesis
    by (rule exI [of _ "?a @ ?b @ ?c @ ?d @ [ClosePath]"]) (simp only: seg path simp_thms)
qed

text \<open>
  The final drawn point of claim C2 is not the first move point. For the square of side
  100 at the origin with smoothness \<open>3/5\<close> and all radii 20, the path starts at
  \<open>(0, -32)\<close> and the last easing curve ends at \<open>(0, 132)\<close>.
\<close>

theorem closed_path_counterexample:
  "\<not> isl (DrawSmoothRoundRect 0 0 100 100 (3 / 5) 20 20 20 20)
   \<and> first_move_point (projr (DrawSmoothRoundRect 0 0 100 100 (3 / 5) 20 20 20 20))
       = Some \<lparr>fX = 0, fY = - 32\<rparr>
   \<and> final_drawn_point (projr (DrawSmoothRoundRect 0 0 100 100 (3 / 5) 20 20 20 20))
       = Some \<lparr>fX = 0, fY = 132\<rparr>
   \<and> final_drawn_point (projr (DrawSmoothRoundRect 0 0 100 100 (3 / 5) 20 20 20 20))
       \<noteq> first_move_point (projr (DrawSmoothRoundRect 0 0 100 100 (3 / 5) 20 20 20 20))"
proof -
  have v: "DrawSmoothRoundRect 0 0 100 100 (3 / 5) 20 20 20 20 =
     Inr (projr (DrawCorner [] 20 (projr (CurveGeometry_ctor 20 (3 / 5)))
                   (SkPoint_Make 0 0) 0)
        @ projr (DrawCorner [] 20 (projr (CurveGeometry_ctor 20 (3 / 5)))
                   (SkPoint_Make (0 + 100) 0) 1)
        @ projr (DrawCorner [] 20 (projr (CurveGeometry_ctor 20 (3 / 5)))
                   (SkPoint_Make (0 + 100) (0 + 100)) 2)
        @ projr (DrawCorner [] 20 (projr (CurveGeometry_ctor 20 (3 / 5)))
                   (SkPoint_Make 0 (0 + 100)) 3)
        @ [ClosePath])"
    by (rule DrawSmoothRoundRect_valid) simp_all
  have g: "edge_connecting_vector (projr (CurveGeometry_ctor 20 (3 / 5))) = SkPoint_Make 32 0"
    by (simp add: CurveGeometry_ctor_valid edge_connecting_vector_def)
  have a: "first_move_point (projr (DrawSmoothRoundRect 0 0 100 100 (3 / 5) 20 20 20 20))
       = Some \<lparr>fX = 0, fY = - 32\<rparr>"
    by (simp add: v DrawCorner_valid g QuarterRotate_1 SkPoint_plus_def SkPoint_Make_def)
  have b: "final_drawn_point (projr (DrawSmoothRoundRect 0 0 100 100 (3 / 5) 20 20 20 20))
       = Some \<lparr>fX = 0, fY = 132\<rparr>"
    by (simp add: v DrawCorner_valid g QuarterRotate_3 SkPoint_plus_def SkPoint_Make_def
        final_drawn_point_def)
  have c: "\<not> isl (DrawSmoothRoundRect 0 0 100 100 (3 / 5) 20 20 20 20)"
    by (simp add: v)
  show ?thesis
    by (simp add: a b c)
qed

text \<open>
  Claim C2, as amended. For every valid input (width and height \<open>> 0\<close>, smoothness in
  \<open>(0, 1]\<close>, all four radii \<open>> 0\<close>) the returned path ends with the close verb, which
  joins the final drawn point to the first move point. The first move point is the top
  left corner's first edge connecting point, the corner plus
  \<^verbatim>\<open>QuarterRotate(edge_connecting_vector, 1)\<close>; the final drawn point is the end of the
  bottom left corner's second easing curve, the corner plus
  \<^verbatim>\<open>QuarterRotate(edge_connecting_vector, 3)\<close>. Both points have the abscissa \<open>x\<close> of the
  left edge; they need not coincide.
\<close>

theorem close_joins_last_to_first:
  assumes "0 < width" and "0 < height" and "0 < smoothness" and "smoothness \<le> 1"
    and "0 < r_tl" and "0 < r_tr" and "0 < r_br" and "0 < r_bl"
  shows "\<exists>path first final.
       DrawSmoothRoundRect x y width height smoothness r_tl r_tr r_br r_bl = Inr path
     \<and> last path = ClosePath
     \<and> first_move_point path = Some first
     \<and> final_drawn_point path = Some final
     \<and> first = SkPoint_plus (SkPoint_Make x y)
                 (QuarterRotate (SkPoint_Make ((1 + smoothness) * r_tl) 0) 1)
     \<and> final = SkPoint_plus (SkPoint_Make x (y + height))
                 (QuarterRotate (SkPoint_Make ((1 + smoothness) * r_bl) 0) 3)
     \<and> fX first = x \<and> fX final = x"
proof -
  have g: "edge_connecting_vector (projr (CurveGeometry_ctor r_tl smoothness))
             = SkPoint_Make ((1 + smoothness) * r_tl) 0"
    "edge_connecting_vector (projr (CurveGeometry_ctor r_bl smoothness))
             = SkPoint_Make ((1 + smoothness) * r_bl) 0"
    using assms by (simp_all add: CurveGeometry_ctor_valid edge_connecting_vector_def)
  have x: "fX (SkPoint_plus (SkPoint_Make x y)
                 (QuarterRotate (SkPoint_Make ((1 + smoothness) * r_tl) 0) 1)) = x"
    "fX (SkPoint_plus (SkPoint_Make x (y + height))
                 (QuarterRotate (SkPoint_Make ((1 + smoothness) * r_bl) 0) 3)) = x"
    by (simp_all add: SkPoint_plus_def SkPoint_Make_def QuarterRotate_1 QuarterRotate_3)
  show ?thesis
    by (simp add: DrawSmoothRoundRect_valid [OF assms] DrawCorner_valid
        final_drawn_point_def g x)
qed

theorem close_joins_last_to_first_witness:
  "(0::real) < 100 \<and> (0::real) < 3 / 5 \<and> (3 / 5 :: real) \<le> 1 \<and> (0::real) < 20
   \<and> (\<exists>path first final.
       DrawSmoothRoundRect 0 0 100 100 (3 / 5) 20 20 20 20 = Inr path
     \<and> last path = ClosePath
     \<and> first_move_point path = Some first
     \<and> final_drawn_point path = Some final
     \<and> fX first = 0 \<and> fX final = 0)"
proof -
  obtain path first final where
    "DrawSmoothRoundRect 0 0 100 100 (3 / 5) 20 20 20 20 = Inr path"
    "last path = ClosePath" "first_move_point path = Some first"
    "final_drawn_point path = Some final" "fX first = 0" "fX final = 0"
    using close_joins_last_to_first [of 100 100 "3 / 5" 20 20 20 20 0 0] by auto
  then show ?thesis by auto
qed

text \<open>
  Claim C4. For every valid input the returned path has exactly 1 move, 3 line, 8 cubic,
  4 arc and 1 close verb, in the order: move (a line for the later corners), curve in,
  arc, curve out, for the four corners in turn, and then the close.
\<close>

theorem path_verbs:
  assumes "0 < width" and "0 < height" and "0 < smoothness" and "smoothness \<le> 1"
    and "0 < r_tl" and "0 < r_tr" and "0 < r_br" and "0 < r_bl"
  shows "\<exists>path. DrawSmoothRoundRect x y width height smoothness r_tl r_tr r_br r_bl = Inr path
     \<and> map verb_kind path =
         [kMove, kCubic, kArc, kCubic,
          kLine, kCubic, kArc, kCubic,
          kLine, kCubic, kArc, kCubic,
          kLine, kCubic, kArc, kCubic,
          kClose]
     \<and> count_kind kMove path = 1 \<and> count_kind kLine path = 3
     \<and> count_kind kCubic path = 8 \<and> count_kind kArc path = 4
     \<and> count_kind kClose path = 1"
proof -
  let ?path = "projr (DrawSmoothRoundRect x y width height smoothness r_tl r_tr r_br r_bl)"
  have v: "DrawSmoothRoundRect x y width height smoothness r_tl r_tr r_br r_bl = Inr ?path"
    by (simp add: DrawSmoothRoundRect_valid [OF assms])
  have k: "map verb_kind ?path =
         [kMove, kCubic, kArc, kCubic,
          kLine, kCubic, kArc, kCubic,
          kLine, kCubic, kArc, kCubic,
          kLine, kCubic, kArc, kCubic,
          kClose]"
    by (simp add: DrawSmoothRoundRect_valid [OF assms] DrawCorner_kinds)
  have f: "\<And>k. count_kind k ?path = length (filter (\<lambda>c. c = k) (map verb_kind ?path))"
    by (simp add: count_kind_def filter_map comp_def)
  show ?thesis
    by (intro exI [of _ ?path] conjI) (rule v, rule k, simp_all add: f k)
qed

theorem path_verbs_witness:
  "(0::real) < 100 \<and> (0::real) < 3 / 5 \<and> (3 / 5 :: real) \<le> 1 \<and> (0::real) < 20
   \<and> (\<exists>path. DrawSmoothRoundRect 0 0 100 100 (3 / 5) 20 20 20 20 = Inr path
     \<and> map verb_kind path =
         [kMove, kCubic, kArc, kCubic,
          kLine, kCubic, kArc, kCubic,
          kLine, kCubic, kArc, kCubic,
          kLine, kCubic, kArc, kCubic,
          kClose]
     \<and> count_kind kMove path = 1 \<and> count_kind kLine path = 3
     \<and> count_kind kCubic path = 8 \<and> count_kind kArc path = 4
     \<and> count_kind kClose path = 1)"
  using path_verbs [of 100 100 "3 / 5" 20 20 20 20 0 0] by simp

text \<open>
  Claim C6. \<^verbatim>\<open>DrawSmoothRoundRect\<close> ends in a failed check if and only if a
  precondition is violated (width \<open>\<le> 0\<close>, height \<open>\<le> 0\<close>, smoothness outside \<open>(0, 1]\<close>
  or a radius \<open>\<le> 0\<close>), and it returns a path if and only if all preconditions hold;
  the constructor of \<^verbatim>\<open>CurveGeometry\<close> fails if and only if its radius is \<open>\<le> 0\<close> or
  the smoothness is outside \<open>(0, 1]\<close>. In particular width 0 and smoothness 0 fail.
\<close>

theorem fatal_iff_precondition_violated:
  "(isl (DrawSmoothRoundRect x y width height smoothness r_tl r_tr r_br r_bl) \<longleftrightarrow>
      (width \<le> 0 \<or> height \<le> 0 \<or> smoothness \<le> 0 \<or> 1 < smoothness
       \<or> r_tl \<le> 0 \<or> r_tr \<le> 0 \<or> r_br \<le> 0 \<or> r_bl \<le> 0))
   \<and> ((\<exists>path. DrawSmoothRoundRect x y width height smoothness r_tl r_tr r_br r_bl = Inr path)
        \<longleftrightarrow>
      (0 < width \<and> 0 < height \<and> 0 < smoothness \<and> smoothness \<le> 1
       \<and> 0 < r_tl \<and> 0 < r_tr \<and> 0 < r_br \<and> 0 < r_bl))
   \<and> (isl (CurveGeometry_ctor radius smoothness) \<longleftrightarrow>
        (radius \<le> 0 \<or> smoothness \<le> 0 \<or> 1 < smoothness))
   \<and> isl (DrawSmoothRoundRect x y 0 height smoothness r_tl r_tr r_br r_bl)
   \<and> isl (DrawSmoothRoundRect x y width height 0 r_tl r_tr r_br r_bl)"
proof -
  let ?bad = "width \<le> 0 \<or> height \<le> 0 \<or> smoothness \<le> 0 \<or> 1 < smoothness
       \<or> r_tl \<le> 0 \<or> r_tr \<le> 0 \<or> r_br \<le> 0 \<or> r_bl \<le> 0"
  let ?call = "DrawSmoothRoundRect x y width height smoothness r_tl r_tr r_br r_bl"
  have a: "isl ?call" if "?bad"
    using that by (rule DrawSmoothRoundRect_invalid)
  have b: "\<exists>path. ?call = Inr path" if "\<not> ?bad"
  proof -
    from that have "0 < width" "0 < height" "0 < smoothness" "smoothness \<le> 1"
      "0 < r_tl" "0 < r_tr" "0 < r_br" "0 < r_bl"
      by simp_all
    then show ?thesis by (simp add: DrawSmoothRoundRect_valid)
  qed
  have 1: "isl ?call \<longleftrightarrow> ?bad"
    using a b by (cases "?bad") auto
  have 2: "(\<exists>path. ?call = Inr path) \<longleftrightarrow> \<not> ?bad"
    using a b by (cases "?bad") auto
  have 3: "isl (CurveGeometry_ctor radius smoothness) \<longleftrightarrow>
        (radius \<le> 0 \<or> smoothness \<le> 0 \<or> 1 < smoothness)"
    by (auto simp add: CurveGeometry_ctor_def DCHECK_def Let_def)
  have 4: "isl (DrawSmoothRoundRect x y 0 height smoothness r_tl r_tr r_br r_bl)"
    by (rule DrawSmoothRoundRect_invalid) simp
  have 5: "isl (DrawSmoothRoundRect x y width height 0 r_tl r_tr r_br r_bl)"
    by (rule DrawSmoothRoundRect_invalid) simp
  from 1 2 3 4 5 show ?thesis
    by (simp only: not_le not_less de_Morgan_disj simp_thms)
qed

theorem fatal_iff_precondition_violated_witness:
  "isl (DrawSmoothRoundRect 0 0 0 100 (3 / 5) 20 20 20 20)
   \<and> isl (DrawSmoothRoundRect 0 0 100 100 0 20 20 20 20)
   \<and> isl (DrawSmoothRoundRect 0 0 100 100 (3 / 5) 20 20 0 20)
   \<and> \<not> isl (DrawSmoothRoundRect 0 0 100 100 (3 / 5) 20 20 20 20)
   \<and> isl (CurveGeometry_ctor 0 1) \<and> \<not> isl (CurveGeometry_ctor 30 1)"
  using fatal_iff_precondition_violated [of 0 0 0 100 "3 / 5" 20 20 20 20 0]
    fatal_iff_precondition_violated [of 0 0 100 100 0 20 20 20 20 30]
    fatal_iff_precondition_violated [of 0 0 100 100 "3 / 5" 20 20 0 20 30]
    fatal_iff_precondition_violated [of 0 0 100 100 "3 / 5" 20 20 20 20 30]
    fatal_iff_precondition_violated [of 0 0 100 100 1 20 20 20 20 0]
    fatal_iff_precondition_violated [of 0 0 100 100 1 20 20 20 20 30]
  by simp

text \<open>
  Claim C9. For two valid inputs that agree on \<open>x\<close>, \<open>y\<close>, width, height and
  smoothness, the four drawing calls of every corner whose radius is the same in both
  inputs are identical in the two paths: a corner's calls depend on its own radius and
  the shared values only. So when the inputs differ in one corner's radius, the calls of
  the other three corners agree.
\<close>

theorem corner_independence:
  assumes "0 < width" and "0 < height" and "0 < smoothness" and "smoothness \<le> 1"
    and "0 < r_tl" and "0 < r_tr" and "0 < r_br" and "0 < r_bl"
    and "0 < r_tl'" and "0 < r_tr'" and "0 < r_br'" and "0 < r_bl'"
  shows "\<exists>path path'.
       DrawSmoothRoundRect x y width height smoothness r_tl r_tr r_br r_bl = Inr path
     \<and> DrawSmoothRoundRect x y width height smoothness r_tl' r_tr' r_br' r_bl' = Inr path'
     \<and> path = corner_segments 0 path @ corner_segments 1 path @ corner_segments 2 path
                @ corner_segments 3 path @ [ClosePath]
     \<and> path' = corner_segments 0 path' @ corner_segments 1 path' @ corner_segments 2 path'
                @ corner_segments 3 path' @ [ClosePath]
     \<and> (r_tl = r_tl' \<longrightarrow> corner_segments 0 path = corner_segments 0 path')
     \<and> (r_tr = r_tr' \<longrightarrow> corner_segments 1 path = corner_segments 1 path')
     \<and> (r_br = r_br' \<longrightarrow> corner_segments 2 path = corner_segments 2 path')
     \<and> (r_bl = r_bl' \<longrightarrow> corner_segments 3 path = corner_segments 3 path')"
proof -
  obtain path where p:
    "DrawSmoothRoundRect x y width height smoothness r_tl r_tr r_br r_bl = Inr path"
    "corner_segments 0 path =
         projr (DrawCorner [] r_tl (projr (CurveGeometry_ctor r_tl smoothness))
                  (SkPoint_Make x y) 0)"
    "corner_segments 1 path =
         projr (DrawCorner [] r_tr (projr (CurveGeometry_ctor r_tr smoothness))
                  (SkPoint_Make (x + width) y) 1)"
    "corner_segments 2 path =
         projr (DrawCorner [] r_br (projr (CurveGeometry_ctor r_br smoothness))
                  (SkPoint_Make (x + width) (y + height)) 2)"
    "corner_segments 3 path =
         projr (DrawCorner [] r_bl (projr (CurveGeometry_ctor r_bl smoothness))
                  (SkPoint_Make x (y + height)) 3)"
    "path = corner_segments 0 path @ corner_segments 1 path @ corner_segments 2 path
                @ corner_segments 3 path @ [ClosePath]"
    using DrawSmoothRoundRect_corners [OF assms(1-8)] by blast
  obtain path' where p':
    "DrawSmoothRoundRect x y width height smoothness r_tl' r_tr' r_br' r_bl' = Inr path'"
    "corner_segments 0 path' =
         projr (DrawCorner [] r_tl' (projr (CurveGeometry_ctor r_tl' smoothness))
                  (SkPoint_Make x y) 0)"
    "corner_segments 1 path' =
         projr (DrawCorner [] r_tr' (projr (CurveGeometry_ctor r_tr' smoothness))
                  (SkPoint_Make (x + width) y) 1)"
    "corner_segments 2 path' =
         projr (DrawCorner [] r_br' (projr (CurveGeometry_ctor r_br' smoothness))
                  (SkPoint_Make (x + width) (y + height)) 2)"
    "corner_segments 3 path' =
         projr (DrawCorner [] r_bl' (projr (CurveGeometry_ctor r_bl' smoothness))
                  (SkPoint_Make x (y + height)) 3)"
    "path' = corner_segments 0 path' @ corner_segments 1 path' @ corner_segments 2 path'
                @ corner_segments 3 path' @ [ClosePath]"
    using DrawSmoothRoundRect_corners [OF assms(1-4) assms(9-12)] by blast
  show ?thesis
    apply (rule exI [of _ path], rule exI [of _ path'])
    apply (intro conjI impI)
    apply (rule p(1), rule p'(1), rule p(6), rule p'(6))
    apply (simp_all only: p(2-5) p'(2-5))
    done
qed

theorem corner_independence_witness:
  "(0::real) < 200 \<and> (0::real) < 1 / 2 \<and> (1 / 2 :: real) \<le> 1 \<and> (0::real) < 10
   \<and> (0::real) < 40
   \<and> corner_segments 1 (projr (DrawSmoothRoundRect 0 0 200 200 (1 / 2) 10 40 40 40))
       = corner_segments 1 (projr (DrawSmoothRoundRect 0 0 200 200 (1 / 2) 40 40 40 40))
   \<and> corner_segments 2 (projr (DrawSmoothRoundRect 0 0 200 200 (1 / 2) 10 40 40 40))
       = corner_segments 2 (projr (DrawSmoothRoundRect 0 0 200 200 (1 / 2) 40 40 40 40))
   \<and> corner_segments 3 (projr (DrawSmoothRoundRect 0 0 200 200 (1 / 2) 10 40 40 40))
       = corner_segments 3 (projr (DrawSmoothRoundRect 0 0 200 200 (1 / 2) 40 40 40 40))"
  using corner_independence [of 200 200 "1 / 2" 10 40 40 40 40 40 40 40 0 0] by auto

end
